theory Spec2Isabelle
  imports Complex_Main "HOL-Library.Word" "HOL-Library.Signed_Division"
begin

section \<open>Numeric kinds of the Go source\<close>

text \<open>
  The functions of the library are generic: \<^verbatim>\<open>func F[T Real](...)\<close> is compiled once for
  every numeric type \<open>T\<close> it is used at.  The model passes the arithmetic of \<open>T\<close> as a
  record of operations (\<open>'a Real_T\<close>, below) and defines every generic function once, over
  that record; the integer types and the float types are instances of the record.
\<close>

text \<open>The run-time panic of Go's integer division and remainder.\<close>

datatype panic = DivideByZero

type_synonym uint64 = "64 word"

subsection \<open>Floating-point values\<close>

text \<open>
  The value of a \<^verbatim>\<open>float64\<close> or \<^verbatim>\<open>float32\<close>: a finite number given by its sign bit
  (\<open>True\<close> is negative) and its magnitude, so that the two zeros are distinct, an infinity
  with its sign, or NaN (the payload of a NaN is not modelled).
\<close>

datatype fp = Finite bool rat | Infinite bool | NaN


text \<open>The number of binary digits of a positive integer.\<close>

function bits :: "int \<Rightarrow> int" where
  "bits n = (if n \<le> 0 then 0 else 1 + bits (n div 2))"
  by pat_completeness auto
termination
  by (relation "measure nat") auto

declare bits.simps [simp del]

definition pow2 :: "int \<Rightarrow> rat" where
  "pow2 e = (if 0 \<le> e then 2 ^ nat e else 1 / 2 ^ nat (- e))"

text \<open>\<open>ilog2 m\<close> is the exponent \<open>e\<close> with \<open>2^e \<le> m < 2^(e+1)\<close>, for \<open>m > 0\<close>.\<close>

definition ilog2 :: "rat \<Rightarrow> int" where
  "ilog2 m = (if 1 \<le> m then bits \<lfloor>m\<rfloor> - 1 else - bits (\<lceil>1 / m\<rceil> - 1))"

text \<open>
  IEEE-754 rounding to nearest, ties to even, of a magnitude \<open>m \<ge> 0\<close> to a binary format
  with \<open>p\<close> bits of precision and least normal exponent \<open>emin\<close>; the exponent is not
  bounded above here.
\<close>

definition round_mag :: "nat \<Rightarrow> int \<Rightarrow> rat \<Rightarrow> rat" where
  "round_mag p emin m =
     (if m = 0 then 0
      else let e = max (ilog2 m) emin;
               ulp = pow2 (e - (int p - 1));
               q = m / ulp;
               f = \<lfloor>q\<rfloor>;
               r = q - of_int f;
               n = (if r < 1 / 2 then f else if 1 / 2 < r then f + 1
                    else if even f then f else f + 1)
           in of_int n * ulp)"

text \<open>
  Rounding to \<^verbatim>\<open>float64\<close> (53 bits, exponents \<open>-1022 .. 1023\<close>) and to \<^verbatim>\<open>float32\<close>
  (24 bits, exponents \<open>-126 .. 127\<close>): a result beyond the largest finite value is an
  infinity.
\<close>

definition rnd64 :: "bool \<Rightarrow> rat \<Rightarrow> fp" where
  "rnd64 s m = (let r = round_mag 53 (- 1022) m
                in if pow2 1024 \<le> r then Infinite s else Finite s r)"












subsection \<open>The operations of a numeric type\<close>

text \<open>
  What the generic code uses of its type parameter \<open>T\<close>: the operators \<^verbatim>\<open>+ - * /\<close> and
  unary minus, the comparisons \<^verbatim>\<open><\<close> and \<^verbatim>\<open><=\<close> (\<^verbatim>\<open>a > b\<close> is \<open>lt b a\<close> and \<^verbatim>\<open>a >= b\<close> is
  \<open>le b a\<close>), the conversion \<open>lit\<close> of an untyped integer constant to \<open>T\<close>, and the
  conversions \<^verbatim>\<open>uint64(x)\<close>, \<^verbatim>\<open>T(u)\<close>, \<^verbatim>\<open>float64(x)\<close> and \<^verbatim>\<open>T(f)\<close>.  Only \<^verbatim>\<open>/\<close> can panic.
\<close>

record 'a Real_T =
  add :: "'a \<Rightarrow> 'a \<Rightarrow> 'a"
  sub :: "'a \<Rightarrow> 'a \<Rightarrow> 'a"
  mul :: "'a \<Rightarrow> 'a \<Rightarrow> 'a"
  quo :: "'a \<Rightarrow> 'a \<Rightarrow> panic + 'a"
  neg :: "'a \<Rightarrow> 'a"
  lt :: "'a \<Rightarrow> 'a \<Rightarrow> bool"
  le :: "'a \<Rightarrow> 'a \<Rightarrow> bool"
  lit :: "int \<Rightarrow> 'a"
  to_uint64 :: "'a \<Rightarrow> uint64"
  of_uint64 :: "uint64 \<Rightarrow> 'a"
  to_float64 :: "'a \<Rightarrow> fp"
  of_float64 :: "fp \<Rightarrow> 'a"

subsection \<open>The integer types\<close>

text \<open>
  A value of an integer type of \<open>LENGTH('a)\<close> bits is a word: \<open>+\<close>, \<open>-\<close>, \<open>*\<close> and unary
  minus wrap around.  A signed type (\<^verbatim>\<open>int8 .. int64\<close>, \<^verbatim>\<open>int\<close>) reads the word in two's
  complement, compares signed and divides truncating towards zero, the one quotient that
  does not fit (the most negative value by \<open>-1\<close>) wrapping; an unsigned type
  (\<^verbatim>\<open>uint8 .. uint64\<close>, \<^verbatim>\<open>uint\<close>, \<^verbatim>\<open>uintptr\<close>) reads it as a natural number.  Converting to
  \<^verbatim>\<open>uint64\<close> sign-extends a signed value and zero-extends an unsigned one; converting
  from \<^verbatim>\<open>uint64\<close> truncates.  Converting a float that has no value of the type after
  truncation is implementation-dependent in Go: the result is the parameter \<open>impl\<close>.
\<close>

definition ival :: "bool \<Rightarrow> 'a::len word \<Rightarrow> int" where
  "ival sg x = (if sg then sint x else uint x)"

definition in_range :: "bool \<Rightarrow> 'a::len itself \<Rightarrow> int \<Rightarrow> bool" where
  "in_range sg ty v =
     (if sg then - (2 ^ (LENGTH('a) - 1)) \<le> v \<and> v < 2 ^ (LENGTH('a) - 1)
      else 0 \<le> v \<and> v < 2 ^ LENGTH('a))"

definition Int_T :: "bool \<Rightarrow> (fp \<Rightarrow> 'a::len word) \<Rightarrow> 'a word Real_T" where
  "Int_T sg impl =
     \<lparr> add = (\<lambda>x y. x + y),
       sub = (\<lambda>x y. x - y),
       mul = (\<lambda>x y. x * y),
       quo = (\<lambda>x y. if y = 0 then Inl DivideByZero
                      else Inr (if sg then word_of_int (sint x sdiv sint y) else x div y)),
       neg = (\<lambda>x. - x),
       lt = (\<lambda>x y. if sg then x <s y else x < y),
       le = (\<lambda>x y. if sg then x \<le>s y else x \<le> y),
       lit = (\<lambda>c. word_of_int c),
       to_uint64 = (\<lambda>x. if sg then scast x else ucast x),
       of_uint64 = (\<lambda>u. ucast u),
       to_float64 = (\<lambda>x. rnd64 (ival sg x < 0) (of_int \<bar>ival sg x\<bar>)),
       of_float64 = (\<lambda>f. case f of
            Finite s m \<Rightarrow>
              (let v = (if s then - \<lfloor>m\<rfloor> else \<lfloor>m\<rfloor>)
               in if in_range sg TYPE('a) v then word_of_int v else impl f)
          | _ \<Rightarrow> impl f) \<rparr>"

subsection \<open>The float types\<close>




section \<open>Sign-aware modulo\<close>



section \<open>Whole and remainder\<close>

text \<open>
  \<^verbatim>\<open>func IWholeRem[T Integer](value T, mod T) (T, T) {
      whole := value / mod
      rem := value - whole
      return whole, rem
  }\<close>
\<close>

definition IWholeRem :: "'a Real_T \<Rightarrow> 'a \<Rightarrow> 'a \<Rightarrow> panic + ('a \<times> 'a)" where
  "IWholeRem T val md =
     (case quo T val md of
        Inl e \<Rightarrow> Inl e
      | Inr whole \<Rightarrow> let rem = sub T val whole in Inr (whole, rem))"

section \<open>Approximation kernels\<close>

text \<open>
  \<^verbatim>\<open>func QuickDerivative[T Real](at T, resolution T, formula func(x T) T) T {
      xHi, xLo := at+resolution, at-resolution
      yHi, yLo := formula(xHi), formula(xLo)
      slope := (yHi - yLo) / (xHi / xLo)
      return slope
  }\<close>
  The caller's \<open>formula\<close> is a total function without effects.
\<close>

definition QuickDerivative :: "'a Real_T \<Rightarrow> 'a \<Rightarrow> 'a \<Rightarrow> ('a \<Rightarrow> 'a) \<Rightarrow> panic + 'a" where
  "QuickDerivative T at' resolution formula =
     (let xHi = add T at' resolution; xLo = sub T at' resolution;
          yHi = formula xHi; yLo = formula xLo
      in case quo T xHi xLo of
           Inl e \<Rightarrow> Inl e
         | Inr ratio \<Rightarrow> quo T (sub T yHi yLo) ratio)"

text \<open>
  \<^verbatim>\<open>func QuickIntegral[T Real](from T, to T, resolution T, formula func(x T) T) T {
      if from > to { from, to = to, from }
      sum := T(0)
      xLo := from
      done := false
      var yHi, yLo, xHi, aLo, aHi T
      for !done {
          xHi = xLo + resolution
          if xHi >= to { xHi = to; done = true }
          yHi, yLo = formula(xHi), formula(xLo)
          aLo = resolution * yLo
          aHi = resolution * yHi
          sum += (aLo + aHi) / 2
          xLo = xHi
      }
      return sum
  }\<close>
  \<open>QuickIntegral_body\<close> is one pass through the body of the loop, from the values of
  \<open>sum\<close> (here \<open>sm\<close>) and \<open>xLo\<close> to the new values of \<open>done\<close>, \<open>sum\<close> and \<open>xLo\<close> (or the panic of the
  division).  The loop runs the body until \<open>done\<close> is set; a loop that never sets it does
  not return, which is the value \<open>None\<close>.
\<close>

definition QuickIntegral_body ::
  "'a Real_T \<Rightarrow> ('a \<Rightarrow> 'a) \<Rightarrow> 'a \<Rightarrow> 'a \<Rightarrow> 'a \<Rightarrow> 'a \<Rightarrow> panic + (bool \<times> 'a \<times> 'a)" where
  "QuickIntegral_body T formula to resolution sm xLo =
     (let xHi = add T xLo resolution;
          done = le T to xHi;
          xHi = (if done then to else xHi);
          yHi = formula xHi; yLo = formula xLo;
          aLo = mul T resolution yLo;
          aHi = mul T resolution yHi
      in case quo T (add T aLo aHi) (lit T 2) of
           Inl e \<Rightarrow> Inl e
         | Inr half \<Rightarrow> Inr (done, add T sm half, xHi))"

partial_function (option) QuickIntegral_loop ::
  "'a Real_T \<Rightarrow> ('a \<Rightarrow> 'a) \<Rightarrow> 'a \<Rightarrow> 'a \<Rightarrow> 'a \<Rightarrow> 'a \<Rightarrow> (panic + 'a) option" where
  "QuickIntegral_loop T formula to resolution sm xLo =
     (let r = QuickIntegral_body T formula to resolution sm xLo
      in if isl r then Some (Inl (projl r))
         else if fst (projr r) then Some (Inr (fst (snd (projr r))))
         else QuickIntegral_loop T formula to resolution (fst (snd (projr r))) (snd (snd (projr r))))"

definition QuickIntegral ::
  "'a Real_T \<Rightarrow> 'a \<Rightarrow> 'a \<Rightarrow> 'a \<Rightarrow> ('a \<Rightarrow> 'a) \<Rightarrow> (panic + 'a) option" where
  "QuickIntegral T from to resolution formula =
     (let swap = lt T to from;
          from' = (if swap then to else from);
          to' = (if swap then from else to)
      in QuickIntegral_loop T formula to' resolution (lit T 0) from')"

section \<open>Range algebra\<close>

text \<open>
  \<^verbatim>\<open>Min\<close>, \<open>Max\<close>, \<^verbatim>\<open>RangesOverlap\<close> and \<^verbatim>\<open>CombineRangesIfOverlap\<close> only compare their
  arguments and return one of them or the constant 0, so no arithmetic can overflow: they
  are modelled over any linearly ordered type with a zero, which covers the values of
  every Go integer type (and of the floats other than NaN).
\<close>

definition Min_T :: "'a::linorder \<Rightarrow> 'a \<Rightarrow> 'a" where
  "Min_T a b = (if a < b then a else b)"

definition Max_T :: "'a::linorder \<Rightarrow> 'a \<Rightarrow> 'a" where
  "Max_T a b = (if a > b then a else b)"

definition RangesOverlap :: "'a::linorder \<Rightarrow> 'a \<Rightarrow> 'a \<Rightarrow> 'a \<Rightarrow> bool" where
  "RangesOverlap startA endA startB endB \<longleftrightarrow> startA \<le> endB \<and> startB \<le> endA"

definition CombineRangesIfOverlap ::
  "'a::{linorder,zero} \<Rightarrow> 'a \<Rightarrow> 'a \<Rightarrow> 'a \<Rightarrow> bool \<times> 'a \<times> 'a" where
  "CombineRangesIfOverlap startA endA startB endB =
     (if \<not> RangesOverlap startA endA startB endB then (False, 0, 0)
      else (True, Min_T startA startB, Max_T endA endB))"

section \<open>Special floating-point values\<close>

text \<open>
  \<^verbatim>\<open>func QNaN32() float32 { return math.Float32frombits(0xFFC00001) }\<close> and its seven
  siblings.  A \<^verbatim>\<open>float32\<close> or \<^verbatim>\<open>float64\<close> is here its IEEE-754 binary representation:
  \<^verbatim>\<open>math.Float32frombits\<close> and \<^verbatim>\<open>math.Float32bits\<close> reinterpret the bits and are inverse to
  each other.  \<open>decode\<close> reads the value off a representation with \<open>eb\<close> exponent bits and
  \<open>fb\<close> fraction bits, and \<open>quiet\<close> reads the most significant fraction bit, which
  tells a quiet NaN from a signalling one.
\<close>

datatype float32 = Float32frombits (Float32bits: "32 word")
datatype float64 = Float64frombits (Float64bits: "64 word")

definition QNaN32 :: float32 where "QNaN32 = Float32frombits 0xFFC00001"
definition SNaN32 :: float32 where "SNaN32 = Float32frombits 0xFF800001"
definition PInf32 :: float32 where "PInf32 = Float32frombits 0x7F800000"
definition NInf32 :: float32 where "NInf32 = Float32frombits 0xFF800000"
definition SNaN64 :: float64 where "SNaN64 = Float64frombits 0x7FF0000000000001"
definition QNaN64 :: float64 where "QNaN64 = Float64frombits 0x7FF8000000000001"
definition PInf64 :: float64 where "PInf64 = Float64frombits 0x7FF0000000000000"
definition NInf64 :: float64 where "NInf64 = Float64frombits 0xFFF0000000000000"

definition decode :: "nat \<Rightarrow> nat \<Rightarrow> int \<Rightarrow> fp" where
  "decode eb fb u =
     (let s = (u div 2 ^ (eb + fb)) mod 2 = 1;
          e = (u div 2 ^ fb) mod 2 ^ eb;
          f = u mod 2 ^ fb;
          bias = 2 ^ (eb - 1) - 1
      in if e = 2 ^ eb - 1 then (if f = 0 then Infinite s else NaN)
         else if e = 0 then Finite s (of_int f * pow2 (1 - bias - int fb))
         else Finite s (of_int (2 ^ fb + f) * pow2 (e - bias - int fb)))"

definition quiet :: "nat \<Rightarrow> int \<Rightarrow> bool" where
  "quiet fb u \<longleftrightarrow> (u div 2 ^ (fb - 1)) mod 2 = 1"

definition float32_value :: "float32 \<Rightarrow> fp" where
  "float32_value x = decode 8 23 (uint (Float32bits x))"

definition float64_value :: "float64 \<Rightarrow> fp" where
  "float64_value x = decode 11 52 (uint (Float64bits x))"

section \<open>Theorems\<close>

lemma Min_T_min: "Min_T a b = min a b"
  by (auto simp: Min_T_def min_def)

lemma Max_T_max: "Max_T a b = max a b"
  by (auto simp: Max_T_def max_def)

subsection \<open>Range algebra\<close>

text \<open>
  Claim C7.  \<^verbatim>\<open>RangesOverlap(startA, endA, startB, endB)\<close> is true iff
  \<open>startA \<le> endB\<close> and \<open>startB \<le> endA\<close> (closed intervals: touching endpoints overlap), and
  \<^verbatim>\<open>CombineRangesIfOverlap\<close> returns \<open>(false, 0, 0)\<close> when that condition fails and
  \<open>(true, min startA startB, max endA endB)\<close> when it holds.
\<close>

theorem RangesOverlap_CombineRanges:
  fixes startA :: "'a::{linorder,zero}"
  shows "(RangesOverlap startA endA startB endB \<longleftrightarrow> startA \<le> endB \<and> startB \<le> endA) \<and>
     CombineRangesIfOverlap startA endA startB endB =
       (if startA \<le> endB \<and> startB \<le> endA then (True, min startA startB, max endA endB)
        else (False, 0, 0))"
  by (simp add: CombineRangesIfOverlap_def RangesOverlap_def Min_T_min Max_T_max)

theorem RangesOverlap_CombineRanges_witness:
  "RangesOverlap (0::int) 5 5 10 \<and> \<not> RangesOverlap (0::int) 4 5 10 \<and>
   CombineRangesIfOverlap (0::int) 5 3 10 = (True, 0, 10) \<and>
   CombineRangesIfOverlap (0::int) 2 5 10 = (False, 0, 0)"
  using RangesOverlap_CombineRanges [of "0::int" 5 5 10]
    RangesOverlap_CombineRanges [of "0::int" 4 5 10]
    RangesOverlap_CombineRanges [of "0::int" 5 3 10]
    RangesOverlap_CombineRanges [of "0::int" 2 5 10]
  by simp

subsection \<open>Integer arithmetic at any width\<close>

lemma sint_word_of_int_self:
  assumes "- (2 ^ (LENGTH('a::len) - 1)) \<le> q" "q < 2 ^ (LENGTH('a) - 1)"
  shows "sint (word_of_int q :: 'a word) = q"
proof -
  have "sint (word_of_int q :: 'a word) = signed_take_bit (LENGTH('a) - 1) q"
    by (simp only: sint_sbintrunc')
  also have "\<dots> = q"
    using assms by (simp only: signed_take_bit_int_eq_self)
  finally show ?thesis .
qed

lemma signed_take_bit_pow2: "signed_take_bit n ((2::int) ^ n) = - (2 ^ n)"
  by (simp add: signed_take_bit_eq_take_bit_shift take_bit_eq_mod)

lemma div_abs_le: "\<bar>k::int\<bar> div \<bar>l\<bar> \<le> \<bar>k\<bar>"
proof (cases "l = 0")
  case True then show ?thesis by simp
next
  case False
  then have "1 \<le> \<bar>l\<bar>" by simp
  then have "\<bar>k\<bar> div \<bar>l\<bar> \<le> \<bar>k\<bar> div 1"
    by (intro zdiv_mono2) simp_all
  then show ?thesis by simp
qed

lemma abs_sdiv_le_div: "\<bar>(k::int) sdiv l\<bar> \<le> \<bar>k\<bar> div \<bar>l\<bar>"
proof -
  have nn: "0 \<le> \<bar>k\<bar> div \<bar>l\<bar>" by (simp add: div_int_pos_iff)
  have "\<bar>k sdiv l\<bar> = \<bar>sgn k\<bar> * \<bar>sgn l\<bar> * (\<bar>k\<bar> div \<bar>l\<bar>)"
    using nn by (simp add: signed_divide_int_def abs_mult)
  also have "\<dots> \<le> \<bar>k\<bar> div \<bar>l\<bar>"
    using nn by (cases "k = 0"; cases "l = 0") (simp_all add: abs_sgn_eq)
  finally show ?thesis .
qed

lemma sdiv_range:
  fixes k l B :: int
  assumes k: "- B \<le> k" "k < B"
    and ex: "k \<noteq> - B \<or> l \<noteq> - 1"
  shows "- B \<le> k sdiv l \<and> k sdiv l < B"
proof (cases "l = - 1")
  case True
  then have "k sdiv l = - k"
    by (simp add: signed_divide_int_def sgn_mult_abs)
  with k ex True show ?thesis by simp
next
  case False
  show ?thesis
  proof (cases "l = 1 \<or> l = 0")
    case True
    then have "k sdiv l = k \<or> k sdiv l = 0"
      by (auto simp: signed_divide_int_def sgn_mult_abs)
    with k show ?thesis by auto
  next
    case l: False
    with False have "2 \<le> \<bar>l\<bar>" by arith
    then have "\<bar>k\<bar> div \<bar>l\<bar> \<le> \<bar>k\<bar> div 2"
      by (intro zdiv_mono2) simp_all
    moreover have "\<bar>k\<bar> \<le> B" using k by simp
    moreover have "0 < B" using k by linarith
    ultimately have b: "\<bar>k\<bar> div \<bar>l\<bar> < B" by linarith
    from abs_sdiv_le_div [of k l] b show ?thesis by linarith
  qed
qed

lemma sdiv_nonneg_eq_div: "0 \<le> (a::int) \<Longrightarrow> 0 \<le> b \<Longrightarrow> a sdiv b = a div b"
  by (cases "a = 0"; cases "b = 0") (simp_all add: signed_divide_int_def)

subsection \<open>Whole and remainder\<close>

lemma quo_Int_T:
  "quo (Int_T sg impl) x y =
     (if y = 0 then Inl DivideByZero
      else Inr (if sg then word_of_int (sint x sdiv sint y) else x div y))"
  by (simp add: Int_T_def)

lemma ival_quo_Int_T:
  fixes val md :: "'a::len word"
  assumes "md \<noteq> 0"
  shows "\<exists>whole. quo (Int_T sg impl) val md = Inr whole \<and>
     ival sg whole =
       (if sg \<and> sint val = - (2 ^ (LENGTH('a) - 1)) \<and> sint md = - 1
        then - (2 ^ (LENGTH('a) - 1)) else ival sg val sdiv ival sg md)"
proof (cases sg)
  case False
  have "uint (val div md) = uint val sdiv uint md"
    by (simp add: uint_div sdiv_nonneg_eq_div)
  with False assms show ?thesis by (simp add: quo_Int_T ival_def)
next
  case True
  let ?B = "(2::int) ^ (LENGTH('a) - 1)"
  let ?q = "sint val sdiv sint md"
  have r: "- ?B \<le> sint val" "sint val < ?B"
    using sint_ge [of val] sint_lt [of val] by simp_all
  have eq: "quo (Int_T sg impl) val md = Inr (word_of_int ?q)"
    using True assms by (simp add: quo_Int_T)
  show ?thesis
  proof (cases "sint val = - ?B \<and> sint md = - 1")
    case ov: True
    then have "?q = ?B" by (simp add: signed_divide_int_def)
    then have "sint (word_of_int ?q :: 'a word) = - ?B"
      by (simp only: sint_sbintrunc' signed_take_bit_pow2)
    with ov True eq show ?thesis by (simp add: ival_def)
  next
    case nov: False
    then have "sint val \<noteq> - ?B \<or> sint md \<noteq> - 1" by simp
    from sdiv_range [OF r this]
    have "sint (word_of_int ?q :: 'a word) = ?q"
      by (intro sint_word_of_int_self) simp_all
    with nov True eq show ?thesis by (auto simp: ival_def)
  qed
qed

text \<open>
  Claim C6.  For every integer type (signed or unsigned, of any width), every \<open>value\<close> and
  every non-zero \<open>mod\<close>, \<^verbatim>\<open>IWholeRem(value, mod)\<close> returns the pair \<open>(whole, rem)\<close> where
  \<open>whole\<close> is the quotient \<open>value / mod\<close> truncated towards zero and \<open>rem\<close> is
  \<open>value - whole\<close> (in the arithmetic of the type), not \<open>value - whole * mod\<close>.  The one
  quotient that does not fit the type, the most negative value of a signed type divided
  by \<open>-1\<close>, wraps to the most negative value, as Go defines \<^verbatim>\<open>/\<close>.
\<close>

theorem IWholeRem_contract:
  fixes val md :: "'a::len word"
  assumes "md \<noteq> 0"
  shows "\<exists>whole rem. IWholeRem (Int_T sg impl) val md = Inr (whole, rem) \<and>
     ival sg whole =
       (if sg \<and> sint val = - (2 ^ (LENGTH('a) - 1)) \<and> sint md = - 1
        then - (2 ^ (LENGTH('a) - 1)) else ival sg val sdiv ival sg md) \<and>
     rem = val - whole"
proof -
  from ival_quo_Int_T [OF assms, of sg impl val] obtain whole
    where w: "quo (Int_T sg impl) val md = Inr whole"
      "ival sg whole =
       (if sg \<and> sint val = - (2 ^ (LENGTH('a) - 1)) \<and> sint md = - 1
        then - (2 ^ (LENGTH('a) - 1)) else ival sg val sdiv ival sg md)"
    by blast
  have "IWholeRem (Int_T sg impl) val md = Inr (whole, val - whole)"
    by (simp add: IWholeRem_def w(1)) (simp add: Int_T_def)
  with w(2) show ?thesis by blast
qed

theorem IWholeRem_contract_witness:
  "(2::64 word) \<noteq> 0 \<and> (- 1::8 word) \<noteq> 0 \<and>
   IWholeRem (Int_T True (\<lambda>f. 0)) (7::64 word) 2 = Inr (3, 4) \<and> (4::64 word) \<noteq> 7 - 3 * 2 \<and>
   IWholeRem (Int_T False (\<lambda>f. 0)) (18446744073709551615::64 word) 2
     = Inr (9223372036854775807, 9223372036854775808) \<and>
   IWholeRem (Int_T True (\<lambda>f. 0)) (100::8 word) (- 1) = Inr (- 100, - 56)"
  using IWholeRem_contract [of "2::64 word" True "\<lambda>f. 0" 7]
    IWholeRem_contract [of "2::64 word" False "\<lambda>f. 0" 18446744073709551615]
    IWholeRem_contract [of "- 1::8 word" True "\<lambda>f. 0" 100]
  by (simp add: IWholeRem_def Int_T_def signed_divide_int_def)

subsection \<open>Special floating-point values\<close>

text \<open>
  Claim C8.  The special-value constructors return exact fixed bit patterns: the bit
  pattern of \<^verbatim>\<open>QNaN32()\<close> is \<open>0xFFC00001\<close> and that of \<^verbatim>\<open>PInf64()\<close> is
  \<open>0x7FF0000000000000\<close>.  Read as IEEE-754, the first is a NaN with the quiet bit set and
  the second is positive infinity.
\<close>

theorem special_value_bit_patterns:
  "Float32bits QNaN32 = 0xFFC00001 \<and> Float64bits PInf64 = 0x7FF0000000000000 \<and>
   float32_value QNaN32 = NaN \<and> quiet 23 (uint (Float32bits QNaN32)) \<and>
   float64_value PInf64 = Infinite False"
  by (simp add: QNaN32_def PInf64_def float32_value_def float64_value_def decode_def quiet_def)

subsection \<open>Modulo by zero\<close>












end
